theory Spec2Isabelle
  imports Main
begin

section \<open>JavaScript values\<close>

text \<open>
  Response bodies and error messages are untyped at run time (\<open>error.response?.data\<close> is
  \<open>any\<close>), so they are modelled as JavaScript values. Numbers are the integers the
  program uses (status codes, ids, milliseconds); an object is the list of its own
  properties.
\<close>

datatype js =
    JUndefined
  | JNull
  | JBool bool
  | JNum int
  | JStr string
  | JArr "js list"
  | JObj "(string \<times> js) list"

text \<open>ToBoolean: what \<open>a || b\<close> and \<open>if (a)\<close> test.\<close>

fun truthy :: "js \<Rightarrow> bool" where
  "truthy JUndefined = False"
| "truthy JNull = False"
| "truthy (JBool b) = b"
| "truthy (JNum n) = (n \<noteq> 0)"
| "truthy (JStr s) = (s \<noteq> [])"
| "truthy (JArr xs) = True"
| "truthy (JObj kvs) = True"

datatype exn = TypeError

text \<open>
  The property read \<open>v.k\<close> for a key that no built-in prototype defines (the program
  reads \<open>message\<close> and \<open>data\<close> only): it throws on \<open>null\<close> and \<open>undefined\<close>, finds an
  own property of an object, and is \<open>undefined\<close> on every other value.
\<close>

fun readProp :: "js \<Rightarrow> string \<Rightarrow> exn + js" where
  "readProp JUndefined k = Inl TypeError"
| "readProp JNull k = Inl TypeError"
| "readProp (JObj kvs) k = Inr (case map_of kvs k of None \<Rightarrow> JUndefined | Some v \<Rightarrow> v)"
| "readProp v k = Inr JUndefined"

section \<open>Options\<close>

text \<open>
  Every field of \<open>FetcherOptions\<close> is optional. An object spread copies own properties,
  also one whose value is \<open>undefined\<close>, so a field has three states: no such property,
  a property holding \<open>undefined\<close>, a property holding a value.
\<close>

datatype 'a optional = Absent | Undef | Val 'a

text \<open>
  \<open>FetcherOptions extends AxiosRequestConfig\<close>: the four fields of the fetcher and the
  fields of the request configuration that the dispatcher or its callers set. The field
  \<open>body\<close> is the configuration's \<open>data\<close>, the request body (the name \<open>data\<close> is kept
  for the response's), and \<open>httpMethod\<close> is its \<open>method\<close>.
\<close>

record FetcherOptions =
  mock :: "bool optional"
  jsonMockup :: "string optional"
  delay :: "int optional"
  showErrorDialog :: "bool optional"
  timeout :: "int optional"
  url :: "string optional"
  httpMethod :: "string optional"
  params :: "js optional"
  body :: "js optional"
  headers :: "(string \<times> string) list optional"

definition defaultOptions :: FetcherOptions where
  "defaultOptions =
     \<lparr> mock = Val True,
       jsonMockup = Val '''',
       delay = Val 0,
       showErrorDialog = Val True,
       timeout = Val 0,
       url = Absent,
       httpMethod = Absent,
       params = Absent,
       body = Absent,
       headers = Absent \<rparr>"

text \<open>One property of \<open>{...a, ...b}\<close>: \<open>b\<close>'s when \<open>b\<close> has the property, else \<open>a\<close>'s.\<close>

definition spread :: "'a optional \<Rightarrow> 'a optional \<Rightarrow> 'a optional" where
  "spread a b = (case b of Absent \<Rightarrow> a | Undef \<Rightarrow> Undef | Val v \<Rightarrow> Val v)"

text \<open>The constant \<open>fetchOptions\<close> of \<open>createFetcher\<close>: \<open>{...defaultOptions, ...options}\<close>.\<close>

definition fetchOptions :: "FetcherOptions \<Rightarrow> FetcherOptions" where
  "fetchOptions options =
     \<lparr> mock = spread (mock defaultOptions) (mock options),
       jsonMockup = spread (jsonMockup defaultOptions) (jsonMockup options),
       delay = spread (delay defaultOptions) (delay options),
       showErrorDialog = spread (showErrorDialog defaultOptions) (showErrorDialog options),
       timeout = spread (timeout defaultOptions) (timeout options),
       url = spread (url defaultOptions) (url options),
       httpMethod = spread (httpMethod defaultOptions) (httpMethod options),
       params = spread (params defaultOptions) (params options),
       body = spread (body defaultOptions) (body options),
       headers = spread (headers defaultOptions) (headers options) \<rparr>"

text \<open>\<open>!p\<close> for an optional boolean: only the value \<open>true\<close> is truthy.\<close>

definition is_true :: "bool optional \<Rightarrow> bool" where
  "is_true p = (case p of Val b \<Rightarrow> b | _ \<Rightarrow> False)"

text \<open>
  \<open>shouldUseMockup\<close>, with \<open>import.meta.env.DEV\<close> as the first argument. The third test
  is the strict comparison \<open>options.jsonMockup === ''\<close>.
\<close>

definition shouldUseMockup :: "bool \<Rightarrow> FetcherOptions \<Rightarrow> bool" where
  "shouldUseMockup DEV options =
     (if \<not> DEV then False
      else if \<not> is_true (mock options) then False
      else if jsonMockup options = Val '''' then False
      else True)"

section \<open>The transport client and what a dispatch does\<close>

record AxiosResponse =
  status :: int
  statusText :: "string option"
  data :: js

text \<open>
  What the client's promise rejects with: an error for which \<open>axios.isAxiosError\<close> holds
  (its optional response and its message), or any other thrown value.
\<close>

datatype error = AxiosError "AxiosResponse option" string | OtherError js

datatype outcome = Fulfilled AxiosResponse | Failed error

text \<open>The two calls the dispatcher makes on the client: \<open>get(url)\<close> and \<open>request(config)\<close>.\<close>

datatype call = Get string | Request FetcherOptions

type_synonym transport = "call \<Rightarrow> outcome"

record ServiceError =
  title :: string
  message :: js

record ContextModal =
  modal :: string
  withCloseButton :: bool
  centered :: bool
  innerProps :: ServiceError

definition MODAL_APPLICATION_ERROR :: string where
  "MODAL_APPLICATION_ERROR = ''applicationError''"

text \<open>The effects of a dispatch, in the order in which they happen.\<close>

datatype event =
    SetTimeout int
  | Send call
  | RemoveCookie string
  | SetLocationHref string
  | OpenContextModal ContextModal
  | Resolve js
  | Reject ServiceError
  | Uncaught exn

text \<open>The template literal \<open>`${fetchOptions.jsonMockup}`\<close>.\<close>

definition template :: "string optional \<Rightarrow> string" where
  "template p = (case p of Val s \<Rightarrow> s | _ \<Rightarrow> ''undefined'')"

text \<open>The initial value of \<open>message\<close> in the catch block, as UTF-8 bytes.\<close>

definition fallbackMessage :: string where
  "fallbackMessage =
     [CHR 0xE0, CHR 0xB8, CHR 0x9E, CHR 0xE0, CHR 0xB8, CHR 0x9A, CHR 0xE0, CHR 0xB8, CHR 0x82,
      CHR 0xE0, CHR 0xB9, CHR 0x89, CHR 0xE0, CHR 0xB8, CHR 0xAD, CHR 0xE0, CHR 0xB8, CHR 0x9C,
      CHR 0xE0, CHR 0xB8, CHR 0xB4, CHR 0xE0, CHR 0xB8, CHR 0x94, CHR 0xE0, CHR 0xB8, CHR 0x9E,
      CHR 0xE0, CHR 0xB8, CHR 0xA5, CHR 0xE0, CHR 0xB8, CHR 0xB2, CHR 0xE0, CHR 0xB8, CHR 0x94,
      CHR 0x20, CHR 0xE0, CHR 0xB8, CHR 0x81, CHR 0xE0, CHR 0xB8, CHR 0xA3, CHR 0xE0, CHR 0xB8,
      CHR 0xB8, CHR 0xE0, CHR 0xB8, CHR 0x93, CHR 0xE0, CHR 0xB8, CHR 0xB2, CHR 0xE0, CHR 0xB8,
      CHR 0xA5, CHR 0xE0, CHR 0xB8, CHR 0xAD, CHR 0xE0, CHR 0xB8, CHR 0x87, CHR 0xE0, CHR 0xB9,
      CHR 0x83, CHR 0xE0, CHR 0xB8, CHR 0xAB, CHR 0xE0, CHR 0xB8, CHR 0xA1, CHR 0xE0, CHR 0xB9,
      CHR 0x88, CHR 0xE0, CHR 0xB8, CHR 0xAD, CHR 0xE0, CHR 0xB8, CHR 0xB5, CHR 0xE0, CHR 0xB8,
      CHR 0x81, CHR 0xE0, CHR 0xB8, CHR 0x84, CHR 0xE0, CHR 0xB8, CHR 0xA3, CHR 0xE0, CHR 0xB8,
      CHR 0xB1, CHR 0xE0, CHR 0xB9, CHR 0x89, CHR 0xE0, CHR 0xB8, CHR 0x87]"

text \<open>
  Lines 48 to 56 and 63 to 66: the three variables of the catch block after the
  \<open>isAxiosError\<close> test, as the error \<open>appError\<close> and the flag \<open>isUnauthorized\<close>.
  \<open>error.response?.data.message\<close> is \<open>undefined\<close> without a response, and otherwise reads
  \<open>message\<close> from the body, which throws when the body is \<open>null\<close> or \<open>undefined\<close>.
\<close>

definition normalizeError :: "error \<Rightarrow> exn + (ServiceError \<times> bool)" where
  "normalizeError err =
     (case err of
        OtherError v \<Rightarrow>
          Inr (\<lparr> title = ''Error'', message = JStr fallbackMessage \<rparr>, False)
      | AxiosError response msg \<Rightarrow>
          \<comment> \<open>\<open>title = error.response?.statusText ?? title\<close>\<close>
          (let title' = (case response of
                           None \<Rightarrow> ''Error''
                         | Some r \<Rightarrow> (case statusText r of None \<Rightarrow> ''Error'' | Some s \<Rightarrow> s))
           in \<comment> \<open>\<open>message = error.response?.data.message || error.message\<close>\<close>
              case (case response of
                      None \<Rightarrow> Inr JUndefined
                    | Some r \<Rightarrow> readProp (data r) ''message'') of
                Inl e \<Rightarrow> Inl e
              | Inr m \<Rightarrow>
                  Inr (\<lparr> title = title', message = (if truthy m then m else JStr msg) \<rparr>,
                       \<comment> \<open>\<open>isUnauthorized = error.response?.status === 401\<close>\<close>
                       (case response of None \<Rightarrow> False | Some r \<Rightarrow> status r = 401))))"

text \<open>
  The catch block. An exception thrown inside it leaves \<open>callFetch\<close>, whose promise
  nothing awaits: neither \<open>resolve\<close> nor \<open>reject\<close> has been called.
\<close>

definition catchBlock :: "FetcherOptions \<Rightarrow> error \<Rightarrow> event list" where
  "catchBlock opts err =
     (case normalizeError err of
        Inl e \<Rightarrow> [Uncaught e]
      | Inr (appError, isUnauthorized) \<Rightarrow>
          (if isUnauthorized then [RemoveCookie ''SID'', SetLocationHref ''/login''] else [])
          @ (if is_true (showErrorDialog opts)
             then [OpenContextModal
                     \<lparr> modal = MODAL_APPLICATION_ERROR,
                       withCloseButton = False,
                       centered = True,
                       innerProps = \<lparr> title = title appError, message = message appError \<rparr> \<rparr>]
             else [])
          @ [Reject appError])"

definition callFetch :: "bool \<Rightarrow> transport \<Rightarrow> FetcherOptions \<Rightarrow> event list" where
  "callFetch DEV client opts =
     (if shouldUseMockup DEV opts
      then Send (Get (template (jsonMockup opts)))
           # (case client (Get (template (jsonMockup opts))) of
                Fulfilled response \<Rightarrow> [Resolve (data response)]
              | Failed err \<Rightarrow> catchBlock opts err)
      else Send (Request opts)
           # (case client (Request opts) of
                Fulfilled response \<Rightarrow> [Resolve (data response)]
              | Failed err \<Rightarrow> catchBlock opts err))"

text \<open>
  The second argument of \<open>setTimeout\<close>: \<open>fetchOptions.delay || 0 * 1000\<close>, which is
  \<open>fetchOptions.delay || (0 * 1000)\<close>.
\<close>

definition timeoutArg :: "FetcherOptions \<Rightarrow> int" where
  "timeoutArg opts =
     (case delay opts of
        Val d \<Rightarrow> (if d \<noteq> 0 then d else 0 * 1000)
      | _ \<Rightarrow> 0 * 1000)"

text \<open>
  A dispatch in two steps. \<open>createFetcher\<close> returns at once: it has merged the options
  and registered one timer, and the promise it returns is pending. When the timer fires,
  \<open>callFetch\<close> runs.
\<close>

record Dispatch =
  trace :: "event list"
  timer :: "(int \<times> FetcherOptions) option"

definition createFetcher :: "FetcherOptions \<Rightarrow> Dispatch" where
  "createFetcher options =
     \<lparr> trace = [SetTimeout (timeoutArg (fetchOptions options))],
       timer = Some (timeoutArg (fetchOptions options), fetchOptions options) \<rparr>"

definition fire :: "bool \<Rightarrow> transport \<Rightarrow> Dispatch \<Rightarrow> Dispatch" where
  "fire DEV client d =
     (case timer d of
        None \<Rightarrow> d
      | Some (ms, opts) \<Rightarrow> \<lparr> trace = trace d @ callFetch DEV client opts, timer = None \<rparr>)"

definition dispatch :: "bool \<Rightarrow> transport \<Rightarrow> FetcherOptions \<Rightarrow> event list" where
  "dispatch DEV client options = trace (fire DEV client (createFetcher options))"

text \<open>The state of the returned promise: the first \<open>resolve\<close> or \<open>reject\<close> settles it.\<close>

datatype settlement = Pending | Resolved js | Rejected ServiceError

fun settled :: "event list \<Rightarrow> settlement" where
  "settled [] = Pending"
| "settled (Resolve v # es) = Resolved v"
| "settled (Reject e # es) = Rejected e"
| "settled (_ # es) = settled es"

text \<open>The calls made on the client, and the dialogs opened, in order.\<close>

fun sent :: "event list \<Rightarrow> call list" where
  "sent [] = []"
| "sent (Send c # es) = c # sent es"
| "sent (_ # es) = sent es"

fun opened :: "event list \<Rightarrow> ContextModal list" where
  "opened [] = []"
| "opened (OpenContextModal m # es) = m # opened es"
| "opened (_ # es) = opened es"

text \<open>The call that \<open>callFetch\<close> makes: the branch of line 40.\<close>

definition issued :: "bool \<Rightarrow> FetcherOptions \<Rightarrow> call" where
  "issued DEV opts =
     (if shouldUseMockup DEV opts then Get (template (jsonMockup opts)) else Request opts)"

section \<open>The shared client\<close>

text \<open>
  \<open>httpClient\<close> is created once, when its module is loaded, from the environment's
  \<open>VITE_API_URL\<close> and the cookies of that moment (\<open>getCookie\<close> gives \<open>undefined\<close> for a
  cookie that is not set).
\<close>

record AxiosInstance =
  baseURL :: "string option"
  instanceTimeout :: int
  instanceHeaders :: "(string \<times> string) list"

definition httpClient :: "string option \<Rightarrow> (string \<Rightarrow> string option) \<Rightarrow> AxiosInstance" where
  "httpClient VITE_API_URL getCookie =
     \<lparr> baseURL = VITE_API_URL,
       instanceTimeout = 60000,
       instanceHeaders =
         [(''Authorization'',
           ''Bearer '' @ (case getCookie ''SID'' of None \<Rightarrow> ''undefined'' | Some sid \<Rightarrow> sid))] \<rparr>"

record WireRequest =
  wireMethod :: string
  wireUrl :: string
  wireBaseURL :: "string option"
  wireParams :: "js optional"
  wireBody :: "js optional"
  wireHeaders :: "(string \<times> string) list"
  wireTimeout :: int

text \<open>
  Modelled from the spec: how the transport client performs \<open>get(url)\<close>; the HTTP library
  is not part of the sources. The spec: one shared client, constructed once with a fixed
  base address, a fixed timeout and a bearer header computed at construction, which its
  requests carry. No configuration is passed with the call, so everything but the method
  and the address comes from the instance. Headers that the library adds by itself are
  left out.
\<close>

definition instanceGet :: "AxiosInstance \<Rightarrow> string \<Rightarrow> WireRequest" where
  "instanceGet inst u =
     \<lparr> wireMethod = ''get'',
       wireUrl = u,
       wireBaseURL = baseURL inst,
       wireParams = Absent,
       wireBody = Absent,
       wireHeaders = instanceHeaders inst,
       wireTimeout = instanceTimeout inst \<rparr>"

section \<open>Services and hooks of the demo resource\<close>

text \<open>
  The object literals that \<open>fetchDemoList\<close> and \<open>fetchDemoCreate\<close> pass to \<open>createFetcher\<close>,
  written as updates of the empty object \<open>{}\<close>.
\<close>

definition emptyOptions :: FetcherOptions where
  "emptyOptions =
     \<lparr> mock = Absent, jsonMockup = Absent, delay = Absent, showErrorDialog = Absent,
       timeout = Absent, url = Absent, httpMethod = Absent, params = Absent, body = Absent,
       headers = Absent \<rparr>"

definition fetchDemoList :: "js \<Rightarrow> FetcherOptions" where
  "fetchDemoList ps =
     emptyOptions
       \<lparr> url := Val ''/api/demo/list'',
         jsonMockup := Val ''/apiMockup/demo/list.json'',
         delay := Val 3000,
         params := Val ps \<rparr>"

definition fetchDemoCreate :: "js \<Rightarrow> FetcherOptions" where
  "fetchDemoCreate ps =
     emptyOptions
       \<lparr> httpMethod := Val ''POST'',
         url := Val ''/api/demo/create'',
         jsonMockup := Val ''/apiMockup/demo/create.json'',
         delay := Val 3000,
         params := Val ps \<rparr>"

text \<open>\<open>useDemoList\<close>: its cache key and its \<open>select: (data) => data.data\<close>.\<close>

definition useDemoList_queryKey :: "js \<Rightarrow> js list" where
  "useDemoList_queryKey ps = [JStr ''demoList'', ps]"

definition useDemoList_select :: "js \<Rightarrow> exn + js" where
  "useDemoList_select d = readProp d ''data''"

text \<open>
  The query cache. \<open>getQueryClient\<close> creates the one client with a stale time of
  \<open>60 * 1000\<close> milliseconds.
\<close>

record Query =
  queryKey :: "js list"
  isInvalidated :: bool
  dataUpdatedAt :: int

definition staleTime :: int where
  "staleTime = 60 * 1000"

text \<open>
  Modelled from the spec: the key matching of the cache library, which is not part of the
  sources. The spec: a cache key is \<open>[resourceName, params]\<close>, and invalidation goes by the
  resource name. A filter key matches the keys that start with it.
\<close>

definition matchesKey :: "js list \<Rightarrow> js list \<Rightarrow> bool" where
  "matchesKey filterKey k = (take (length filterKey) k = filterKey)"

text \<open>
  Modelled from the spec: \<open>invalidateQueries\<close> of the cache library, which is not part of
  the sources. The spec: it marks every cache entry whose key matches as stale.
\<close>

definition invalidateQueries :: "js list \<Rightarrow> Query list \<Rightarrow> Query list" where
  "invalidateQueries filterKey cache =
     map (\<lambda>q. if matchesKey filterKey (queryKey q) then q\<lparr>isInvalidated := True\<rparr> else q) cache"

text \<open>
  Modelled from the spec: the staleness test of the cache library, which is not part of
  the sources. The spec: data is fresh for the stale time, an invalidated entry is stale,
  and a stale entry is dispatched again at its next use.
\<close>

definition isStale :: "int \<Rightarrow> Query \<Rightarrow> bool" where
  "isStale now q = (isInvalidated q \<or> dataUpdatedAt q + staleTime \<le> now)"

text \<open>
  \<open>useCreateDemo\<close>: the mutation function is \<open>fetchDemoCreate\<close>, and \<open>onSuccess\<close>
  invalidates the key \<open>['demoList']\<close> on the one query client.
\<close>

definition useCreateDemo_onSuccess :: "Query list \<Rightarrow> Query list" where
  "useCreateDemo_onSuccess cache = invalidateQueries [JStr ''demoList''] cache"

text \<open>
  Modelled from the spec: a mutation of the cache library, which is not part of the
  sources. The spec: it runs the mutation function and, on success, \<open>onSuccess\<close>; here
  success is the resolution of the dispatch that \<open>fetchDemoCreate\<close> starts.
\<close>

definition useCreateDemo_mutate ::
    "bool \<Rightarrow> transport \<Rightarrow> js \<Rightarrow> Query list \<Rightarrow> Query list" where
  "useCreateDemo_mutate DEV client ps cache =
     (case settled (dispatch DEV client (fetchDemoCreate ps)) of
        Resolved v \<Rightarrow> useCreateDemo_onSuccess cache
      | _ \<Rightarrow> cache)"

text \<open>The resource name of a cache key: its first element.\<close>

definition resourceName :: "js list \<Rightarrow> js option" where
  "resourceName k = (case k of [] \<Rightarrow> None | r # _ \<Rightarrow> Some r)"

section \<open>Example inputs\<close>

definition fixtureBody :: js where
  "fixtureBody =
     JObj [(''code'', JNum 200), (''message'', JStr ''success''),
           (''data'', JArr [JObj [(''id'', JNum 1), (''name'', JStr ''a'')]])]"

definition fixtureClient :: transport where
  "fixtureClient c =
     (if c = Get ''/apiMockup/demo/list.json''
      then Fulfilled \<lparr> status = 200, statusText = Some ''OK'', data = fixtureBody \<rparr>
      else Failed (AxiosError None ''Network Error''))"

definition failingClient :: "error \<Rightarrow> transport" where
  "failingClient err c = Failed err"

definition httpFailure :: "int \<Rightarrow> string \<Rightarrow> js \<Rightarrow> string \<Rightarrow> error" where
  "httpFailure code text b msg =
     AxiosError (Some \<lparr> status = code, statusText = Some text, data = b \<rparr>) msg"

text \<open>A client on which the fixture of the create call is found, and a cache of two reads.\<close>

definition exampleCreateClient :: transport where
  "exampleCreateClient c =
     (if c = Get ''/apiMockup/demo/create.json''
      then Fulfilled \<lparr> status = 200, statusText = Some ''OK'',
                       data = JObj [(''code'', JNum 200)] \<rparr>
      else Failed (AxiosError None ''Network Error''))"

definition exampleCache :: "Query list" where
  "exampleCache =
     [\<lparr> queryKey = useDemoList_queryKey (JObj [(''limit'', JNum 10)]),
         isInvalidated = False, dataUpdatedAt = 1000 \<rparr>,
      \<lparr> queryKey = [JStr ''userList'', JObj [(''limit'', JNum 10)]],
         isInvalidated = False, dataUpdatedAt = 1000 \<rparr>]"

section \<open>Basic facts\<close>

lemma dispatch_eq:
  "dispatch DEV client options =
     SetTimeout (timeoutArg (fetchOptions options)) # callFetch DEV client (fetchOptions options)"
  by (simp add: dispatch_def fire_def createFetcher_def)

lemma sent_append: "sent (xs @ ys) = sent xs @ sent ys"
  by (induction xs rule: sent.induct) simp_all

lemma opened_append: "opened (xs @ ys) = opened xs @ opened ys"
  by (induction xs rule: opened.induct) simp_all

lemma callFetch_issued:
  "callFetch DEV client opts =
     Send (issued DEV opts)
     # (case client (issued DEV opts) of
          Fulfilled response \<Rightarrow> [Resolve (data response)]
        | Failed err \<Rightarrow> catchBlock opts err)"
  by (simp add: callFetch_def issued_def)

lemma spread_if: "spread a b = (if b = Absent then a else b)"
  by (cases b) (simp_all add: spread_def)

lemma timeoutArg_raw: "timeoutArg opts = (case delay opts of Val d \<Rightarrow> d | _ \<Rightarrow> 0)"
  by (simp add: timeoutArg_def split: optional.splits)

section \<open>Merging the options\<close>

text \<open>
  C8. \<open>createFetcher\<close> merges the caller's options over the defaults field by field, the
  caller's property winning whenever the caller's object has it: a field the caller
  leaves out is \<open>mock = true\<close>, \<open>jsonMockup = ''\<close>, \<open>delay = 0\<close>, \<open>timeout = 0\<close>,
  \<open>showErrorDialog = true\<close>, and the fields without a default stay the caller's.
\<close>

theorem fetchOptions_merges_over_defaults:
  "mock (fetchOptions options) = (if mock options = Absent then Val True else mock options)
   \<and> jsonMockup (fetchOptions options)
       = (if jsonMockup options = Absent then Val '''' else jsonMockup options)
   \<and> delay (fetchOptions options) = (if delay options = Absent then Val 0 else delay options)
   \<and> timeout (fetchOptions options)
       = (if timeout options = Absent then Val 0 else timeout options)
   \<and> showErrorDialog (fetchOptions options)
       = (if showErrorDialog options = Absent then Val True else showErrorDialog options)
   \<and> url (fetchOptions options) = url options
   \<and> httpMethod (fetchOptions options) = httpMethod options
   \<and> params (fetchOptions options) = params options
   \<and> body (fetchOptions options) = body options
   \<and> headers (fetchOptions options) = headers options"
  by (simp add: fetchOptions_def defaultOptions_def spread_if)

theorem fetchOptions_merges_over_defaults_witness:
  "fetchOptions (fetchDemoCreate (JObj [(''id'', JNum 1)]))
     = \<lparr> mock = Val True,
         jsonMockup = Val ''/apiMockup/demo/create.json'',
         delay = Val 3000,
         showErrorDialog = Val True,
         timeout = Val 0,
         url = Val ''/api/demo/create'',
         httpMethod = Val ''POST'',
         params = Val (JObj [(''id'', JNum 1)]),
         body = Absent,
         headers = Absent \<rparr>"
  using fetchOptions_merges_over_defaults [of "fetchDemoCreate (JObj [(''id'', JNum 1)])"]
  by (simp add: fetchDemoCreate_def emptyOptions_def)

section \<open>The delay\<close>

text \<open>
  C7. The duration given to \<open>setTimeout\<close> is the merged \<open>delay\<close> itself when that is
  truthy and 0 otherwise, so it is always the raw value and never a multiple by 1000.
  When \<open>createFetcher\<close> returns, the timer is all there is: nothing has been sent and the
  promise is pending, also for a delay of 0; the call runs when the timer fires.
\<close>

theorem createFetcher_schedules_raw_delay:
  "timeoutArg (fetchOptions options)
     = (case delay (fetchOptions options) of
          Val d \<Rightarrow> (if d \<noteq> 0 then d else 0)
        | _ \<Rightarrow> 0)
   \<and> (case delay (fetchOptions options) of
          Val d \<Rightarrow> timeoutArg (fetchOptions options) = d
        | _ \<Rightarrow> timeoutArg (fetchOptions options) = 0)
   \<and> trace (createFetcher options) = [SetTimeout (timeoutArg (fetchOptions options))]
   \<and> timer (createFetcher options)
       = Some (timeoutArg (fetchOptions options), fetchOptions options)
   \<and> sent (trace (createFetcher options)) = []
   \<and> settled (trace (createFetcher options)) = Pending
   \<and> trace (fire DEV client (createFetcher options))
       = trace (createFetcher options) @ callFetch DEV client (fetchOptions options)"
  by (simp add: timeoutArg_def createFetcher_def fire_def split: optional.splits)

theorem createFetcher_schedules_raw_delay_witness:
  "timeoutArg (fetchOptions (fetchDemoList JNull)) = 3000
   \<and> trace (createFetcher (fetchDemoList JNull)) = [SetTimeout 3000]
   \<and> trace (createFetcher emptyOptions) = [SetTimeout 0]
   \<and> sent (trace (createFetcher emptyOptions)) = []"
proof -
  have slow: "delay (fetchOptions (fetchDemoList JNull)) = Val 3000"
    by (simp add: fetchDemoList_def emptyOptions_def fetchOptions_def spread_def)
  have none: "delay (fetchOptions emptyOptions) = Val 0"
    by (simp add: emptyOptions_def fetchOptions_def defaultOptions_def spread_def)
  from createFetcher_schedules_raw_delay
         [where options = "fetchDemoList JNull" and DEV = True and client = fixtureClient]
  have "timeoutArg (fetchOptions (fetchDemoList JNull)) = 3000
        \<and> trace (createFetcher (fetchDemoList JNull)) = [SetTimeout 3000]"
    by (simp add: slow)
  moreover
  from createFetcher_schedules_raw_delay
         [where options = emptyOptions and DEV = True and client = fixtureClient]
  have "trace (createFetcher emptyOptions) = [SetTimeout 0]
        \<and> sent (trace (createFetcher emptyOptions)) = []"
    by (simp add: none)
  ultimately show ?thesis by blast
qed

section \<open>Mock mode\<close>

text \<open>
  C3. The rule the spec states (true exactly in a development build, with \<open>mock\<close> true
  and a non-empty fixture path supplied) fails on the code where \<open>jsonMockup\<close> is
  \<open>undefined\<close>: the strict comparison with \<open>''\<close> lets it pass. With \<open>jsonMockup: undefined\<close>
  in the caller's options, the merged options have no fixture path, \<open>shouldUseMockup\<close> is
  true, and the fixture request goes to the address \<open>undefined\<close>.
\<close>

theorem shouldUseMockup_undefined_fixture:
  "jsonMockup (fetchOptions (emptyOptions\<lparr>jsonMockup := Undef\<rparr>)) = Undef
   \<and> shouldUseMockup True (fetchOptions (emptyOptions\<lparr>jsonMockup := Undef\<rparr>)) = True
   \<and> shouldUseMockup True (fetchOptions emptyOptions) = False
   \<and> shouldUseMockup True (emptyOptions\<lparr>mock := Val True\<rparr>) = True
   \<and> sent (dispatch True fixtureClient (emptyOptions\<lparr>jsonMockup := Undef\<rparr>))
       = [Get ''undefined'']"
  by (simp add: shouldUseMockup_def fetchOptions_def defaultOptions_def emptyOptions_def
      spread_def is_true_def dispatch_eq callFetch_def template_def fixtureClient_def
      catchBlock_def normalizeError_def timeoutArg_def MODAL_APPLICATION_ERROR_def)

text \<open>What the code computes, for every options value.\<close>

lemma shouldUseMockup_iff:
  "shouldUseMockup DEV options
     \<longleftrightarrow> DEV \<and> mock options = Val True \<and> jsonMockup options \<noteq> Val ''''"
  by (cases "mock options") (auto simp: shouldUseMockup_def is_true_def)

text \<open>
  C1. In mock mode the promise resolves with the whole body of the fixture response, the
  envelope \<open>{code, message, data}\<close> as it is, whenever the fixture request succeeds. The
  \<open>data\<close> field is taken out later, by the \<open>select\<close> of the query hook.
\<close>

theorem mock_dispatch_resolves_with_body:
  assumes "shouldUseMockup DEV (fetchOptions options)"
    and "client (Get (template (jsonMockup (fetchOptions options)))) = Fulfilled response"
  shows "dispatch DEV client options
           = [SetTimeout (timeoutArg (fetchOptions options)),
              Send (Get (template (jsonMockup (fetchOptions options)))),
              Resolve (data response)]
         \<and> settled (dispatch DEV client options) = Resolved (data response)"
  using assms by (simp add: dispatch_eq callFetch_def)

theorem mock_dispatch_resolves_with_body_witness:
  "shouldUseMockup True (fetchOptions (fetchDemoList (JObj [(''limit'', JNum 10)])))
   \<and> fixtureClient (Get (template (jsonMockup
         (fetchOptions (fetchDemoList (JObj [(''limit'', JNum 10)]))))))
       = Fulfilled \<lparr> status = 200, statusText = Some ''OK'', data = fixtureBody \<rparr>
   \<and> settled (dispatch True fixtureClient (fetchDemoList (JObj [(''limit'', JNum 10)])))
       = Resolved fixtureBody
   \<and> useDemoList_select fixtureBody
       = Inr (JArr [JObj [(''id'', JNum 1), (''name'', JStr ''a'')]])"
proof -
  let ?options = "fetchDemoList (JObj [(''limit'', JNum 10)])"
  have path: "jsonMockup (fetchOptions ?options) = Val ''/apiMockup/demo/list.json''"
    by (simp add: fetchDemoList_def emptyOptions_def fetchOptions_def spread_def)
  have mock: "shouldUseMockup True (fetchOptions ?options)"
    by (simp add: shouldUseMockup_iff path)
      (simp add: fetchDemoList_def emptyOptions_def fetchOptions_def defaultOptions_def
        spread_def)
  have got: "fixtureClient (Get (template (jsonMockup (fetchOptions ?options))))
               = Fulfilled \<lparr> status = 200, statusText = Some ''OK'', data = fixtureBody \<rparr>"
    by (simp add: path template_def fixtureClient_def)
  have sel: "useDemoList_select fixtureBody
               = Inr (JArr [JObj [(''id'', JNum 1), (''name'', JStr ''a'')]])"
    by (simp add: useDemoList_select_def fixtureBody_def)
  from mock_dispatch_resolves_with_body
         [where DEV = True and client = fixtureClient and options = "?options", OF mock got]
       mock got sel
  show ?thesis by simp
qed

text \<open>
  The claim as the spec has it fails on the fixture of its own example: the dispatch
  resolves with the envelope, which is not the list in its \<open>data\<close> field.
\<close>

theorem mock_dispatch_data_field_counterexample:
  "shouldUseMockup True (fetchOptions (fetchDemoList (JObj [(''limit'', JNum 10)])))
   \<and> settled (dispatch True fixtureClient (fetchDemoList (JObj [(''limit'', JNum 10)])))
       = Resolved (JObj [(''code'', JNum 200), (''message'', JStr ''success''),
                          (''data'', JArr [JObj [(''id'', JNum 1), (''name'', JStr ''a'')]])])
   \<and> settled (dispatch True fixtureClient (fetchDemoList (JObj [(''limit'', JNum 10)])))
       \<noteq> Resolved (JArr [JObj [(''id'', JNum 1), (''name'', JStr ''a'')]])"
  by (simp add: shouldUseMockup_def fetchOptions_def defaultOptions_def emptyOptions_def
      fetchDemoList_def spread_def is_true_def dispatch_eq callFetch_def template_def
      fixtureClient_def fixtureBody_def)

section \<open>Failures\<close>

lemma dispatch_failed:
  assumes "client (issued DEV (fetchOptions options)) = Failed err"
  shows "dispatch DEV client options
           = SetTimeout (timeoutArg (fetchOptions options))
             # Send (issued DEV (fetchOptions options))
             # catchBlock (fetchOptions options) err"
  using assms by (simp add: dispatch_eq callFetch_issued)

lemma settled_catchBlock:
  "settled (catchBlock opts err)
     = (case normalizeError err of Inl e \<Rightarrow> Pending | Inr (appError, u) \<Rightarrow> Rejected appError)"
  by (simp add: catchBlock_def split: sum.splits prod.splits)


lemma normalizeError_other:
  "normalizeError (OtherError v) = Inr (\<lparr> title = ''Error'', message = JStr fallbackMessage \<rparr>, False)"
  by (simp add: normalizeError_def)

lemma normalizeError_no_response:
  "normalizeError (AxiosError None msg) = Inr (\<lparr> title = ''Error'', message = JStr msg \<rparr>, False)"
  by (simp add: normalizeError_def)

lemma normalizeError_response:
  "normalizeError (AxiosError (Some r) msg)
     = (case readProp (data r) ''message'' of
          Inl e \<Rightarrow> Inl e
        | Inr m \<Rightarrow>
            Inr (\<lparr> title = (case statusText r of None \<Rightarrow> ''Error'' | Some s \<Rightarrow> s),
                   message = (if truthy m then m else JStr msg) \<rparr>,
                 status r = 401))"
  by (simp add: normalizeError_def split: sum.splits)

lemma readProp_throws_iff: "(\<exists>e. readProp b k = Inl e) \<longleftrightarrow> b = JNull \<or> b = JUndefined"
  by (cases b) simp_all




section \<open>A response body that is null\<close>

text \<open>
  Line 54 reads \<open>error.response?.data.message\<close>: the optional chain guards the response
  and not its body. When the failed response's body is \<open>null\<close> (a server answering with
  the JSON text \<open>null\<close>), the read throws inside the catch block, before the cookie, the
  redirect, the dialog and \<open>reject\<close>.
\<close>

lemma normalizeError_throws_iff:
  "(\<exists>e. normalizeError err = Inl e)
     \<longleftrightarrow> (\<exists>r msg. err = AxiosError (Some r) msg \<and> (data r = JNull \<or> data r = JUndefined))"
proof (cases err)
  case (OtherError v)
  then show ?thesis by (simp add: normalizeError_other)
next
  case (AxiosError response msg)
  show ?thesis
  proof (cases response)
    case None
    with AxiosError show ?thesis by (simp add: normalizeError_no_response)
  next
    case (Some r)
    have "(\<exists>e. normalizeError (AxiosError (Some r) msg) = Inl e)
            \<longleftrightarrow> (\<exists>e. readProp (data r) ''message'' = Inl e)"
      by (simp add: normalizeError_response split: sum.splits)
    with AxiosError Some show ?thesis by (simp add: readProp_throws_iff)
  qed
qed

lemma settled_dispatch:
  "settled (dispatch DEV client options)
     = (case client (issued DEV (fetchOptions options)) of
          Fulfilled response \<Rightarrow> Resolved (data response)
        | Failed err \<Rightarrow>
            (case normalizeError err of Inl e \<Rightarrow> Pending | Inr (appError, u) \<Rightarrow> Rejected appError))"
  by (simp add: dispatch_eq callFetch_issued settled_catchBlock split: outcome.splits)

text \<open>The promise stays pending in exactly this case.\<close>

lemma pending_iff_null_body:
  "settled (dispatch DEV client options) = Pending
     \<longleftrightarrow> (\<exists>r msg. client (issued DEV (fetchOptions options)) = Failed (AxiosError (Some r) msg)
                    \<and> (data r = JNull \<or> data r = JUndefined))"
proof (cases "client (issued DEV (fetchOptions options))")
  case (Fulfilled response)
  then show ?thesis by (simp add: settled_dispatch)
next
  case (Failed err)
  have "settled (dispatch DEV client options) = Pending \<longleftrightarrow> (\<exists>e. normalizeError err = Inl e)"
    by (simp add: settled_dispatch Failed split: sum.splits prod.splits)
  with Failed show ?thesis by (simp add: normalizeError_throws_iff)
qed

text \<open>
  C4. A live call that fails with HTTP 500 and the body \<open>null\<close>: the promise is never
  settled. The claim (every failure settles the promise as a rejection) is what the catch
  block is written for; the unguarded read of the body breaks it.
\<close>

theorem failure_with_null_body_never_settles:
  "dispatch False
     (failingClient (httpFailure 500 ''Internal Server Error'' JNull
        ''Request failed with status code 500''))
     emptyOptions
     = [SetTimeout 0, Send (Request (fetchOptions emptyOptions)), Uncaught TypeError]
   \<and> settled (dispatch False
        (failingClient (httpFailure 500 ''Internal Server Error'' JNull
           ''Request failed with status code 500''))
        emptyOptions)
       = Pending"
  by (simp add: dispatch_eq callFetch_def shouldUseMockup_def failingClient_def httpFailure_def
      catchBlock_def normalizeError_def timeoutArg_def fetchOptions_def defaultOptions_def
      emptyOptions_def spread_def)

section \<open>Session expiry\<close>

lemma is_true_iff: "is_true p \<longleftrightarrow> p = Val True"
  by (cases p) (simp_all add: is_true_def)

lemma catchBlock_events:
  assumes "normalizeError err = Inr (appError, isUnauthorized)"
  shows "catchBlock opts err
           = (if isUnauthorized then [RemoveCookie ''SID'', SetLocationHref ''/login''] else [])
             @ (if showErrorDialog opts = Val True
                then [OpenContextModal
                        \<lparr> modal = ''applicationError'', withCloseButton = False,
                          centered = True, innerProps = appError \<rparr>]
                else [])
             @ [Reject appError]"
  using assms by (cases appError) (simp add: catchBlock_def is_true_iff MODAL_APPLICATION_ERROR_def)

text \<open>
  What the code does on a 401 whose body can be read: the cookie, the redirect, then the
  dialog if it is enabled, then the rejection. Without a response, or with another status,
  there is neither a cookie removal nor a redirect.
\<close>

lemma unauthorized_effects:
  assumes "client (issued DEV (fetchOptions options)) = Failed (AxiosError (Some r) msg)"
    and "status r = 401"
    and "readProp (data r) ''message'' = Inr m"
  shows "\<exists>appError.
           dispatch DEV client options
             = [SetTimeout (timeoutArg (fetchOptions options)),
                Send (issued DEV (fetchOptions options)),
                RemoveCookie ''SID'', SetLocationHref ''/login'']
               @ (if showErrorDialog (fetchOptions options) = Val True
                  then [OpenContextModal
                          \<lparr> modal = ''applicationError'', withCloseButton = False,
                            centered = True, innerProps = appError \<rparr>]
                  else [])
               @ [Reject appError]"
proof -
  from assms(2,3) obtain appError
    where "normalizeError (AxiosError (Some r) msg) = Inr (appError, True)"
    by (simp add: normalizeError_response)
  from catchBlock_events [OF this] assms(1) show ?thesis
    by (simp add: dispatch_failed)
qed

lemma not_unauthorized_effects:
  assumes "client (issued DEV (fetchOptions options)) = Failed err"
    and "\<forall>r msg. err = AxiosError (Some r) msg \<longrightarrow> status r \<noteq> 401"
  shows "RemoveCookie c \<notin> set (dispatch DEV client options)
         \<and> SetLocationHref u \<notin> set (dispatch DEV client options)"
proof (cases "normalizeError err")
  case (Inl e)
  with assms(1) show ?thesis by (simp add: dispatch_failed catchBlock_def)
next
  case (Inr p)
  obtain appError isUnauthorized where p: "p = (appError, isUnauthorized)"
    by (cases p)
  have "\<not> isUnauthorized"
    using Inr p assms(2)
    by (cases err)
      (auto simp: normalizeError_def Let_def split: option.splits sum.splits)
  with catchBlock_events [of err appError isUnauthorized] Inr p assms(1) show ?thesis
    by (simp add: dispatch_failed)
qed

text \<open>
  C2. A live call that fails with HTTP 401 and the body \<open>null\<close>: the cookie is not
  removed, nothing navigates to \<open>/login\<close>, and the promise is not rejected.
\<close>

theorem unauthorized_with_null_body:
  "dispatch False
     (failingClient (httpFailure 401 ''Unauthorized'' JNull
        ''Request failed with status code 401''))
     (emptyOptions\<lparr>url := Val ''/api/demo/list''\<rparr>)
     = [SetTimeout 0,
        Send (Request (fetchOptions (emptyOptions\<lparr>url := Val ''/api/demo/list''\<rparr>))),
        Uncaught TypeError]"
  by (simp add: dispatch_eq callFetch_def shouldUseMockup_def failingClient_def httpFailure_def
      catchBlock_def normalizeError_def timeoutArg_def fetchOptions_def defaultOptions_def
      emptyOptions_def spread_def)

section \<open>The error dialog\<close>

text \<open>
  What the code does on a failure whose catch block runs to its end: one dialog with the
  rejection's title and message, opened before the rejection, when the merged
  \<open>showErrorDialog\<close> is \<open>true\<close>; none otherwise.
\<close>

lemma opened_failed:
  assumes "client (issued DEV (fetchOptions options)) = Failed err"
    and "normalizeError err = Inr (appError, isUnauthorized)"
  shows "opened (dispatch DEV client options)
           = (if showErrorDialog (fetchOptions options) = Val True
              then [\<lparr> modal = MODAL_APPLICATION_ERROR, withCloseButton = False,
                       centered = True, innerProps = appError \<rparr>]
              else [])"
    and "showErrorDialog (fetchOptions options) = Val True \<Longrightarrow>
         \<exists>before. dispatch DEV client options
                    = before
                      @ [OpenContextModal
                           \<lparr> modal = MODAL_APPLICATION_ERROR, withCloseButton = False,
                             centered = True, innerProps = appError \<rparr>,
                         Reject appError]"
  using assms
  by (auto simp: dispatch_failed catchBlock_events opened_append MODAL_APPLICATION_ERROR_def)

text \<open>
  C6. A live call that fails with HTTP 503 and the body \<open>null\<close>, with the default
  \<open>showErrorDialog = true\<close>: no dialog is opened.
\<close>

theorem failure_with_null_body_opens_no_dialog:
  "showErrorDialog (fetchOptions emptyOptions) = Val True
   \<and> opened (dispatch False
        (failingClient (httpFailure 503 ''Service Unavailable'' JNull
           ''Request failed with status code 503''))
        emptyOptions)
       = []"
  by (simp add: dispatch_eq callFetch_def shouldUseMockup_def failingClient_def httpFailure_def
      catchBlock_def normalizeError_def timeoutArg_def fetchOptions_def defaultOptions_def
      emptyOptions_def spread_def)

section \<open>The fixture request\<close>

lemma sent_catchBlock: "sent (catchBlock opts err) = []"
  by (simp add: catchBlock_def sent_append split: sum.splits prod.splits)

lemma sent_dispatch: "sent (dispatch DEV client options) = [issued DEV (fetchOptions options)]"
proof (cases "client (issued DEV (fetchOptions options))")
  case (Fulfilled response)
  then show ?thesis by (simp add: dispatch_eq callFetch_issued)
next
  case (Failed err)
  have "sent (dispatch DEV client options)
          = issued DEV (fetchOptions options) # sent (catchBlock (fetchOptions options) err)"
    by (simp add: dispatch_failed [where client = client, OF Failed])
  then show ?thesis by (simp add: sent_catchBlock)
qed

lemma shouldUseMockup_request_fields:
  "shouldUseMockup DEV
     (fetchOptions (options\<lparr>httpMethod := m, url := u, params := p, body := b, headers := h\<rparr>))
     = shouldUseMockup DEV (fetchOptions options)"
  by (simp add: shouldUseMockup_def fetchOptions_def)

text \<open>
  C10. On the mock path a dispatch makes one call on the client, \<open>get\<close> with the merged
  \<open>jsonMockup\<close> as its address (the string itself when \<open>jsonMockup\<close> is a string) and no
  configuration, whether the fixture request succeeds or fails. The caller's method,
  address, query parameters, body and headers do not reach it: changing them changes
  nothing that is sent. The request is made with the shared client's defaults, so it
  carries the \<open>Authorization: Bearer\<close> header computed from the cookie when the client was
  created.
\<close>

theorem mock_path_sends_one_get:
  assumes "shouldUseMockup DEV (fetchOptions options)"
  shows "sent (dispatch DEV client options)
           = [Get (template (jsonMockup (fetchOptions options)))]
         \<and> (\<forall>path. jsonMockup (fetchOptions options) = Val path \<longrightarrow>
               sent (dispatch DEV client options) = [Get path])
         \<and> sent (dispatch DEV client
                   (options\<lparr>httpMethod := m, url := u, params := p, body := b, headers := h\<rparr>))
             = sent (dispatch DEV client options)
         \<and> instanceGet (httpClient apiUrl getCookie)
               (template (jsonMockup (fetchOptions options)))
             = \<lparr> wireMethod = ''get'',
                 wireUrl = template (jsonMockup (fetchOptions options)),
                 wireBaseURL = apiUrl,
                 wireParams = Absent,
                 wireBody = Absent,
                 wireHeaders =
                   [(''Authorization'',
                     ''Bearer '' @ (case getCookie ''SID'' of
                                      None \<Rightarrow> ''undefined''
                                    | Some sid \<Rightarrow> sid))],
                 wireTimeout = 60000 \<rparr>"
proof -
  have one: "sent (dispatch DEV client options)
               = [Get (template (jsonMockup (fetchOptions options)))]"
    using assms by (simp add: sent_dispatch issued_def)
  have same_path:
    "jsonMockup
       (fetchOptions (options\<lparr>httpMethod := m, url := u, params := p, body := b, headers := h\<rparr>))
       = jsonMockup (fetchOptions options)"
    by (simp add: fetchOptions_def)
  have ignored:
    "sent (dispatch DEV client
             (options\<lparr>httpMethod := m, url := u, params := p, body := b, headers := h\<rparr>))
       = sent (dispatch DEV client options)"
    using assms
    by (simp add: sent_dispatch issued_def shouldUseMockup_request_fields same_path)
  have wire:
    "instanceGet (httpClient apiUrl getCookie) (template (jsonMockup (fetchOptions options)))
       = \<lparr> wireMethod = ''get'',
           wireUrl = template (jsonMockup (fetchOptions options)),
           wireBaseURL = apiUrl,
           wireParams = Absent,
           wireBody = Absent,
           wireHeaders =
             [(''Authorization'',
               ''Bearer '' @ (case getCookie ''SID'' of
                                None \<Rightarrow> ''undefined''
                              | Some sid \<Rightarrow> sid))],
           wireTimeout = 60000 \<rparr>"
    by (simp add: instanceGet_def httpClient_def)
  from one ignored wire show ?thesis
    by (simp add: template_def)
qed

theorem mock_path_sends_one_get_witness:
  "shouldUseMockup True (fetchOptions (fetchDemoCreate (JObj [(''id'', JNum 1)])))
   \<and> sent (dispatch True fixtureClient (fetchDemoCreate (JObj [(''id'', JNum 1)])))
       = [Get ''/apiMockup/demo/create.json'']
   \<and> sent (dispatch True fixtureClient
        ((fetchDemoCreate (JObj [(''id'', JNum 1)]))
           \<lparr> httpMethod := Val ''DELETE'', url := Val ''/elsewhere'', params := Undef,
             body := Val (JStr ''x''), headers := Val [(''Authorization'', ''Basic abc'')] \<rparr>))
       = [Get ''/apiMockup/demo/create.json'']
   \<and> wireHeaders
        (instanceGet (httpClient (Some ''https://api.example'') [''SID'' \<mapsto> ''t0ken''])
           ''/apiMockup/demo/create.json'')
       = [(''Authorization'', ''Bearer t0ken'')]"
proof -
  let ?options = "fetchDemoCreate (JObj [(''id'', JNum 1)])"
  have path: "jsonMockup (fetchOptions ?options) = Val ''/apiMockup/demo/create.json''"
    by (simp add: fetchDemoCreate_def emptyOptions_def fetchOptions_def spread_def)
  have mock: "shouldUseMockup True (fetchOptions ?options)"
    by (simp add: shouldUseMockup_iff path)
      (simp add: fetchDemoCreate_def emptyOptions_def fetchOptions_def defaultOptions_def
        spread_def)
  from mock_path_sends_one_get
         [where DEV = True and options = "?options" and client = fixtureClient
            and m = "Val ''DELETE''" and u = "Val ''/elsewhere''" and p = Undef
            and b = "Val (JStr ''x'')" and h = "Val [(''Authorization'', ''Basic abc'')]"
            and apiUrl = "Some ''https://api.example''" and getCookie = "[''SID'' \<mapsto> ''t0ken'']",
          OF mock]
       mock
  show ?thesis
    by (simp add: path template_def)
qed

section \<open>Invalidation after a mutation\<close>

lemma matchesKey_resource: "matchesKey [r] k \<longleftrightarrow> resourceName k = Some r"
  by (cases k) (simp_all add: matchesKey_def resourceName_def)

lemma useCreateDemo_mutate_failed:
  assumes "\<forall>v. settled (dispatch DEV client (fetchDemoCreate ps)) \<noteq> Resolved v"
  shows "useCreateDemo_mutate DEV client ps cache = cache"
  using assms by (simp add: useCreateDemo_mutate_def split: settlement.splits)

text \<open>
  C9. After a mutation of \<open>useCreateDemo\<close> whose dispatch resolves, every cache entry
  whose key's resource name is \<open>demoList\<close> (the keys of \<open>useDemoList\<close>, whatever their
  parameters) is the entry it was with \<open>isInvalidated\<close> set, hence stale at any time and
  dispatched again at its next use; every entry with another resource name is unchanged.
\<close>

theorem mutation_success_invalidates_resource:
  assumes "settled (dispatch DEV client (fetchDemoCreate ps)) = Resolved v"
  shows "length (useCreateDemo_mutate DEV client ps cache) = length cache
         \<and> (\<forall>i < length cache.
               if resourceName (queryKey (cache ! i)) = Some (JStr ''demoList'')
               then useCreateDemo_mutate DEV client ps cache ! i
                      = (cache ! i)\<lparr>isInvalidated := True\<rparr>
                    \<and> isStale now (useCreateDemo_mutate DEV client ps cache ! i)
               else useCreateDemo_mutate DEV client ps cache ! i = cache ! i)
         \<and> resourceName (useDemoList_queryKey listParams) = Some (JStr ''demoList'')"
  using assms
  by (simp add: useCreateDemo_mutate_def useCreateDemo_onSuccess_def invalidateQueries_def
      matchesKey_resource isStale_def useDemoList_queryKey_def resourceName_def)

theorem mutation_success_invalidates_resource_witness:
  "settled (dispatch True exampleCreateClient (fetchDemoCreate (JObj [(''id'', JNum 2)])))
     = Resolved (JObj [(''code'', JNum 200)])
   \<and> useCreateDemo_mutate True exampleCreateClient (JObj [(''id'', JNum 2)]) exampleCache
       = [\<lparr> queryKey = [JStr ''demoList'', JObj [(''limit'', JNum 10)]],
             isInvalidated = True, dataUpdatedAt = 1000 \<rparr>,
          \<lparr> queryKey = [JStr ''userList'', JObj [(''limit'', JNum 10)]],
             isInvalidated = False, dataUpdatedAt = 1000 \<rparr>]"
proof -
  let ?ps = "JObj [(''id'', JNum 2)]"
  have resolved:
    "settled (dispatch True exampleCreateClient (fetchDemoCreate ?ps))
       = Resolved (JObj [(''code'', JNum 200)])"
    by (simp add: settled_dispatch issued_def shouldUseMockup_def fetchDemoCreate_def
        emptyOptions_def fetchOptions_def defaultOptions_def spread_def is_true_def
        template_def exampleCreateClient_def)
  let ?after = "useCreateDemo_mutate True exampleCreateClient ?ps exampleCache"
  note inst = mutation_success_invalidates_resource
         [where DEV = True and client = exampleCreateClient and ps = "?ps"
            and cache = exampleCache and now = 2000 and listParams = JNull, OF resolved]
  have two: "length exampleCache = 2"
    by (simp add: exampleCache_def)
  from inst two have len: "length ?after = 2"
    by simp
  from inst have each:
    "\<forall>i < length exampleCache.
       if resourceName (queryKey (exampleCache ! i)) = Some (JStr ''demoList'')
       then ?after ! i = (exampleCache ! i)\<lparr>isInvalidated := True\<rparr> \<and> isStale 2000 (?after ! i)
       else ?after ! i = exampleCache ! i"
    by blast
  have name0: "resourceName (queryKey (exampleCache ! 0)) = Some (JStr ''demoList'')"
    by (simp add: exampleCache_def useDemoList_queryKey_def resourceName_def)
  have name1: "resourceName (queryKey (exampleCache ! 1)) \<noteq> Some (JStr ''demoList'')"
    by (simp add: exampleCache_def resourceName_def)
  from each two have "if resourceName (queryKey (exampleCache ! 0)) = Some (JStr ''demoList'')
       then ?after ! 0 = (exampleCache ! 0)\<lparr>isInvalidated := True\<rparr> \<and> isStale 2000 (?after ! 0)
       else ?after ! 0 = exampleCache ! 0"
    by (metis zero_less_numeral)
  with name0 have first: "?after ! 0 = (exampleCache ! 0)\<lparr>isInvalidated := True\<rparr>"
    by simp
  from each two have "if resourceName (queryKey (exampleCache ! 1)) = Some (JStr ''demoList'')
       then ?after ! 1 = (exampleCache ! 1)\<lparr>isInvalidated := True\<rparr> \<and> isStale 2000 (?after ! 1)
       else ?after ! 1 = exampleCache ! 1"
    by (metis one_less_numeral_iff semiring_norm(76))
  with name1 have second: "?after ! 1 = exampleCache ! 1"
    by simp
  from len obtain x y where xy: "?after = [x, y]"
    by (auto simp: numeral_2_eq_2 length_Suc_conv)
  with first second have "?after = [(exampleCache ! 0)\<lparr>isInvalidated := True\<rparr>, exampleCache ! 1]"
    by simp
  with resolved show ?thesis
    by (simp add: exampleCache_def useDemoList_queryKey_def)
qed

end
